theory Spec2Isabelle
  imports Complex_Main "HOL-Library.AList"
begin

section \<open>Python values, exceptions and the HTTP response\<close>

text \<open>
  The values the script handles come out of \<^verbatim>\<open>response.json()\<close>: None, booleans,
  integers, strings, lists and dictionaries with string keys. Python integers are
  unbounded, so they are \<^typ>\<open>int\<close>. A dictionary is an association list; a key is
  looked up with \<^const>\<open>map_of\<close> and stored with \<^const>\<open>AList.update\<close>, which keeps the
  position of an existing key and appends a new one, as a Python dict does.
  Numbers with a fraction (Python floats) are not part of the model.
\<close>

datatype pyval =
    PNone
  | PBool bool
  | PInt int
  | PStr string
  | PList "pyval list"
  | PDict "(string \<times> pyval) list"

text \<open>Truth value testing (\<^verbatim>\<open>if x:\<close>, \<^verbatim>\<open>not x\<close>, \<^verbatim>\<open>x and y\<close>).\<close>

fun truthy :: "pyval \<Rightarrow> bool" where
  "truthy PNone = False"
| "truthy (PBool b) = b"
| "truthy (PInt n) = (n \<noteq> 0)"
| "truthy (PStr s) = (s \<noteq> [])"
| "truthy (PList xs) = (xs \<noteq> [])"
| "truthy (PDict kvs) = (kvs \<noteq> [])"

text \<open>
  The exceptions that can be raised in the script. The text an exception carries is
  not modelled; \<open>repr\<close> gives the class name followed by a placeholder for it.
\<close>

datatype exn =
    JSONDecodeError
  | AttributeError
  | KeyError
  | TypeError
  | ValueError
  | ZeroDivisionError
  | RequestException
  | DatabaseError

fun repr :: "exn \<Rightarrow> string" where
  "repr JSONDecodeError = ''JSONDecodeError(...)''"
| "repr AttributeError = ''AttributeError(...)''"
| "repr KeyError = ''KeyError(...)''"
| "repr TypeError = ''TypeError(...)''"
| "repr ValueError = ''ValueError(...)''"
| "repr ZeroDivisionError = ''ZeroDivisionError(...)''"
| "repr RequestException = ''RequestException(...)''"
| "repr DatabaseError = ''DatabaseError(...)''"

text \<open>
  A computation that may raise returns \<open>exn + 'a\<close>, \<open>Inl\<close> for the exception.
  \<open>andthen\<close> sequences two such computations: the second runs only when the first
  returned.
\<close>

definition andthen :: "exn + 'a \<Rightarrow> ('a \<Rightarrow> exn + 'b) \<Rightarrow> exn + 'b" where
  "andthen m f = (case m of Inl e \<Rightarrow> Inl e | Inr x \<Rightarrow> f x)"

text \<open>
  \<^verbatim>\<open>d.get(key, default)\<close>: only a dictionary has the method, every other value raises
  AttributeError. \<^verbatim>\<open>d[key]\<close> raises KeyError on a missing key and TypeError on a
  value that is not subscriptable by a string. \<^verbatim>\<open>d[key] = v\<close> stores into a
  dictionary.
\<close>

fun method_get :: "pyval \<Rightarrow> string \<Rightarrow> pyval \<Rightarrow> exn + pyval" where
  "method_get (PDict kvs) key dflt =
     Inr (case map_of kvs key of None \<Rightarrow> dflt | Some v \<Rightarrow> v)"
| "method_get _ key dflt = Inl AttributeError"

fun subscript :: "pyval \<Rightarrow> string \<Rightarrow> exn + pyval" where
  "subscript (PDict kvs) key =
     (case map_of kvs key of None \<Rightarrow> Inl KeyError | Some v \<Rightarrow> Inr v)"
| "subscript _ key = Inl TypeError"

fun setitem :: "pyval \<Rightarrow> string \<Rightarrow> pyval \<Rightarrow> exn + pyval" where
  "setitem (PDict kvs) key v = Inr (PDict (AList.update key v kvs))"
| "setitem _ key v = Inl TypeError"

text \<open>\<^verbatim>\<open>needle in haystack\<close> on strings.\<close>

fun startswith :: "string \<Rightarrow> string \<Rightarrow> bool" where
  "startswith s [] = True"
| "startswith [] (c # p) = False"
| "startswith (a # s) (c # p) = (a = c \<and> startswith s p)"

fun str_contains :: "string \<Rightarrow> string \<Rightarrow> bool" where
  "str_contains [] needle = (needle = [])"
| "str_contains (a # s) needle = (startswith (a # s) needle \<or> str_contains s needle)"

text \<open>
  What the script reads of a \<^verbatim>\<open>requests.Response\<close>: \<^verbatim>\<open>ok\<close>, \<^verbatim>\<open>reason\<close> (a string,
  or None), the Content-Type header (absent, or a string) and the body as
  \<^verbatim>\<open>response.json()\<close> decodes it (\<open>None\<close> when the body is not JSON and the call
  raises).
\<close>

record response =
  ok :: bool
  reason :: pyval
  content_type :: "string option"
  json_body :: "pyval option"

definition response_json :: "response \<Rightarrow> exn + pyval" where
  "response_json r = (case json_body r of None \<Rightarrow> Inl JSONDecodeError | Some v \<Rightarrow> Inr v)"

text \<open>
  \<^verbatim>\<open>'application/json' not in response.headers.get('Content-Type', {})\<close>: with the
  header absent the test is against the empty dictionary and is true.
\<close>

definition not_json_content :: "response \<Rightarrow> bool" where
  "not_json_content r =
     (case content_type r of
        None \<Rightarrow> True
      | Some ct \<Rightarrow> \<not> str_contains ct ''application/json'')"

subsection \<open>extract_json\<close>

text \<open>
  The condition of line 160, \<^verbatim>\<open>not response.ok or response.json().get('status') != 'OK'\<close>:
  the right operand is evaluated only when the response is ok, and it raises when the
  body does not decode or decodes to something that is not a dictionary.
\<close>

definition failed_status :: "response \<Rightarrow> exn + bool" where
  "failed_status r =
     (if \<not> ok r then Inr True
      else andthen (response_json r) (\<lambda>j.
           andthen (method_get j ''status'' PNone) (\<lambda>s.
           Inr (s \<noteq> PStr ''OK''))))"

definition extract_json :: "response \<Rightarrow> exn + (pyval \<times> pyval)" where
  "extract_json r =
     andthen (failed_status r) (\<lambda>failed.
       if failed then
         if not_json_content r then Inr (PDict [], reason r)
         else
           andthen (response_json r) (\<lambda>j.
           andthen (method_get j ''message'' (PStr ''No error message in response'')) (\<lambda>error.
           Inr (PDict [], error)))
       else
         andthen (response_json r) (\<lambda>json_result. Inr (json_result, PStr '''')))"

section \<open>The network and the clock\<close>

text \<open>
  The script talks to the remote service and reads the clock. The service and the
  machine are a parameter of the model, \<open>env\<close>: what the k-th HTTP request of the run
  returns (a response, or the exception \<^verbatim>\<open>requests.get\<close> raises), how long that
  request takes, and by how much the k-th \<^verbatim>\<open>time.sleep\<close> oversleeps. The state that the
  run changes is \<open>world\<close>: the time \<^verbatim>\<open>time.time()\<close> returns, the requests sent so far,
  in order, and the number of sleeps so far. Times are real numbers (seconds), not
  floating-point numbers; only HTTP requests and sleeps take time.
\<close>

datatype request = ListTimeZone | GetTimeZone pyval

record env =
  http :: "nat \<Rightarrow> request \<Rightarrow> exn + response"
  latency :: "nat \<Rightarrow> real"
  oversleep :: "nat \<Rightarrow> real"

record world =
  clock :: real
  sent :: "request list"
  sleeps :: nat

definition requests_get :: "env \<Rightarrow> request \<Rightarrow> world \<Rightarrow> (exn + response) \<times> world" where
  "requests_get ev req w =
     (http ev (length (sent w)) req,
      w\<lparr>clock := clock w + latency ev (length (sent w)), sent := sent w @ [req]\<rparr>)"

text \<open>\<^verbatim>\<open>time.sleep(t)\<close> raises ValueError on a negative length.\<close>

definition sleep :: "env \<Rightarrow> real \<Rightarrow> world \<Rightarrow> (exn + unit) \<times> world" where
  "sleep ev t w =
     (if t < 0 then (Inl ValueError, w)
      else (Inr (), w\<lparr>clock := clock w + t + oversleep ev (sleeps w), sleeps := Suc (sleeps w)\<rparr>))"

section \<open>The fetchers\<close>

subsection \<open>list_time_zone\<close>

text \<open>
  Everything raised inside the \<^verbatim>\<open>try\<close> is caught: the list stays \<^verbatim>\<open>[]\<close> and the error
  is the text built from the exception.
\<close>

definition script_error :: "exn \<Rightarrow> pyval" where
  "script_error e = PStr (''Python Script Error: '' @ repr e)"

definition list_time_zone :: "env \<Rightarrow> world \<Rightarrow> (pyval \<times> pyval) \<times> world" where
  "list_time_zone ev w =
     (case requests_get ev ListTimeZone w of (got, w1) \<Rightarrow>
        (case andthen got (\<lambda>response.
              andthen (extract_json response) (\<lambda>(data, error).
              andthen (method_get data ''zones'' (PList [])) (\<lambda>json_result.
              Inr (json_result, error)))) of
           Inl e \<Rightarrow> (PList [], script_error e)
         | Inr res \<Rightarrow> res,
         w1))"

subsection \<open>get_time_zone_by_name\<close>

definition max_bigint_value :: int where
  "max_bigint_value = 9223372036854775807"

text \<open>
  The function is the request, then everything else. \<open>decode_time_zone\<close> is what the
  \<^verbatim>\<open>try\<close> of lines 68 to 91 leaves in \<^verbatim>\<open>json_result\<close> and \<^verbatim>\<open>error\<close>, given what
  \<^verbatim>\<open>requests.get\<close> did: every exception is caught there.
\<close>

definition decode_time_zone :: "exn + response \<Rightarrow> pyval \<times> pyval" where
  "decode_time_zone got =
     (case andthen got extract_json of
        Inl e \<Rightarrow> (PDict [], script_error e)
      | Inr res \<Rightarrow> res)"

text \<open>
  Lines 95 to 98, once for each bound:
  \<^verbatim>\<open>if json_result and not json_result.get(key): json_result[key] = v\<close>.
  The statements stand outside the \<^verbatim>\<open>try\<close>, so what they raise is not caught.
\<close>

definition fill_in :: "string \<Rightarrow> pyval \<Rightarrow> pyval \<Rightarrow> exn + pyval" where
  "fill_in key v json_result =
     (if truthy json_result then
        andthen (method_get json_result key PNone) (\<lambda>cur.
          if \<not> truthy cur then setitem json_result key v else Inr json_result)
      else Inr json_result)"

definition zone_result :: "exn + response \<Rightarrow> exn + (pyval \<times> pyval)" where
  "zone_result got =
     (case decode_time_zone got of (json_result, error) \<Rightarrow>
        andthen (fill_in ''zoneStart'' (PInt (- max_bigint_value)) json_result) (\<lambda>j1.
        andthen (fill_in ''zoneEnd'' (PInt max_bigint_value) j1) (\<lambda>j2.
        Inr (j2, error))))"

definition get_time_zone_by_name ::
    "env \<Rightarrow> pyval \<Rightarrow> world \<Rightarrow> (exn + (pyval \<times> pyval)) \<times> world" where
  "get_time_zone_by_name ev zone_name w =
     (case requests_get ev (GetTimeZone zone_name) w of (got, w1) \<Rightarrow> (zone_result got, w1))"

subsection \<open>get_time_zone_details\<close>

text \<open>
  \<^verbatim>\<open>for x in v\<close>: a list gives its elements, a string its characters, a dictionary
  its keys; None, a boolean and an integer raise TypeError (and so does \<^verbatim>\<open>len(v)\<close>,
  on the same values).
\<close>

fun iterate :: "pyval \<Rightarrow> exn + pyval list" where
  "iterate (PList xs) = Inr xs"
| "iterate (PStr s) = Inr (map (\<lambda>c. PStr [c]) s)"
| "iterate (PDict kvs) = Inr (map (\<lambda>kv. PStr (fst kv)) kvs)"
| "iterate _ = Inl TypeError"

text \<open>
  The loop of lines 126 to 147, over the zones still to do. The accumulators are the
  two output lists and \<^verbatim>\<open>start_time\<close>. The progress line printed in each round is not
  modelled.
\<close>

fun details_loop ::
    "env \<Rightarrow> real \<Rightarrow> pyval list \<Rightarrow> pyval list \<Rightarrow> pyval list \<Rightarrow> real \<Rightarrow> world
      \<Rightarrow> (exn + (pyval list \<times> pyval list)) \<times> world" where
  "details_loop ev time_per_request [] zone_details errors start_time w =
     (Inr (zone_details, errors), w)"
| "details_loop ev time_per_request (tz # rest) zone_details errors start_time w =
     (case subscript tz ''zoneName'' of
        Inl e \<Rightarrow> (Inl e, w)
      | Inr zone_name \<Rightarrow>
         (case get_time_zone_by_name ev zone_name w of
            (Inl e, w1) \<Rightarrow> (Inl e, w1)
          | (Inr (zone_detail, error), w1) \<Rightarrow>
             (let zone_details' = (if truthy error then zone_details else zone_details @ [zone_detail]);
                  errors' = (if truthy error then errors @ [error] else errors);
                  elapsed_time = clock w1 - start_time
              in case (if elapsed_time < time_per_request
                       then sleep ev (time_per_request - elapsed_time) w1
                       else (Inr (), w1)) of
                   (Inl e, w2) \<Rightarrow> (Inl e, w2)
                 | (Inr u, w2) \<Rightarrow>
                     details_loop ev time_per_request rest zone_details' errors' (clock w2) w2)))"

text \<open>
  \<^verbatim>\<open>1 / rate_limit\<close> raises ZeroDivisionError when the rate is zero. An exception leaves
  the function with the world as it is at that point.
\<close>

definition get_time_zone_details ::
    "env \<Rightarrow> pyval \<Rightarrow> real \<Rightarrow> real \<Rightarrow> world \<Rightarrow> (exn + (pyval list \<times> pyval list)) \<times> world" where
  "get_time_zone_details ev time_zones rate_limit buffer w =
     (if rate_limit = 0 then (Inl ZeroDivisionError, w)
      else
        (let time_per_request = 1 / rate_limit + buffer in
         case sleep ev time_per_request w of
           (Inl e, w1) \<Rightarrow> (Inl e, w1)
         | (Inr u, w1) \<Rightarrow>
            (case iterate time_zones of
               Inl e \<Rightarrow> (Inl e, w1)
             | Inr tzs \<Rightarrow> details_loop ev time_per_request tzs [] [] (clock w1) w1)))"

section \<open>The database\<close>

text \<open>
  A value as the driver hands it to the database: None is NULL, booleans, integers and
  strings are literals, and a list is an array of its adapted elements (a string
  column stores it in its text form). A dictionary cannot be adapted and raises, also
  inside a list. The tables' declarations are not part of the source, so the columns'
  types, coercions and constraints are not modelled: a column holds the value as
  adapted.
\<close>

datatype sqlval = SNull | SBool bool | SInt int | SText string | SArray "sqlval list"

fun adapt :: "pyval \<Rightarrow> exn + sqlval"
  and adapt_all :: "pyval list \<Rightarrow> exn + sqlval list" where
  "adapt PNone = Inr SNull"
| "adapt (PBool b) = Inr (SBool b)"
| "adapt (PInt n) = Inr (SInt n)"
| "adapt (PStr s) = Inr (SText s)"
| "adapt (PList xs) = andthen (adapt_all xs) (\<lambda>vs. Inr (SArray vs))"
| "adapt (PDict kvs) = Inl DatabaseError"
| "adapt_all [] = Inr []"
| "adapt_all (x # xs) = andthen (adapt x) (\<lambda>v. andthen (adapt_all xs) (\<lambda>vs. Inr (v # vs)))"

text \<open>
  The rows of TZDB\_TIMEZONES and of TZDB\_ZONE\_DETAILS (and of its staging copy). A
  timestamp is the clock's value; IMPORT\_DATE is NULL (\<open>None\<close>) when the subquery that
  fills it finds no row.
\<close>

record summary_row =
  TZ_COUNTRYCODE :: sqlval
  TZ_COUNTRYNAME :: sqlval
  TZ_ZONENAME :: sqlval
  TZ_GMTOFFSET :: sqlval
  TZ_IMPORT_DATE :: "real option"

record detail_row =
  ZONENAME :: sqlval
  ZONESTART :: sqlval
  ZONEEND :: sqlval
  COUNTRYCODE :: sqlval
  COUNTRYNAME :: sqlval
  GMTOFFSET :: sqlval
  DST :: sqlval
  IMPORT_DATE :: "real option"

text \<open>
  The tables as the run's transaction sees them. TZDB\_ERROR\_LOG is the list of its
  messages (the database fills ERROR\_DATE itself). The two temporary tables exist only
  once created (\<open>None\<close> before).
\<close>

record tables =
  error_log :: "sqlval list"
  timezones :: "summary_row list"
  zone_details :: "detail_row list"
  temp_time_table :: "real list option"
  temp_zone_details :: "detail_row list option"

subsection \<open>Statements\<close>

definition log_error :: "pyval \<Rightarrow> tables \<Rightarrow> exn + tables" where
  "log_error err t =
     andthen (adapt err) (\<lambda>m. Inr (t\<lparr>error_log := error_log t @ [m]\<rparr>))"

definition create_temp_time_table :: "tables \<Rightarrow> exn + tables" where
  "create_temp_time_table t =
     (case temp_time_table t of
        Some rows \<Rightarrow> Inl DatabaseError
      | None \<Rightarrow> Inr (t\<lparr>temp_time_table := Some []\<rparr>))"

text \<open>
  \<^verbatim>\<open>INSERT INTO temp_time_table DEFAULT VALUES\<close>: one row, holding the time of the
  statement.
\<close>

definition insert_temp_time :: "real \<Rightarrow> tables \<Rightarrow> exn + tables" where
  "insert_temp_time now t =
     (case temp_time_table t of
        None \<Rightarrow> Inl DatabaseError
      | Some rows \<Rightarrow> Inr (t\<lparr>temp_time_table := Some (rows @ [now])\<rparr>))"

definition truncate_timezones :: "tables \<Rightarrow> tables" where
  "truncate_timezones t = t\<lparr>timezones := []\<rparr>"

text \<open>
  \<^verbatim>\<open>(SELECT import_time FROM temp_time_table)\<close> as a value: NULL on no row, an error on
  more than one.
\<close>

definition select_import_time :: "tables \<Rightarrow> exn + real option" where
  "select_import_time t =
     (case temp_time_table t of
        None \<Rightarrow> Inl DatabaseError
      | Some [] \<Rightarrow> Inr None
      | Some [x] \<Rightarrow> Inr (Some x)
      | Some (x # y # rows) \<Rightarrow> Inl DatabaseError)"

text \<open>The placeholder \<^verbatim>\<open>%(name)s\<close>: the entry of the row, adapted.\<close>

definition param :: "pyval \<Rightarrow> string \<Rightarrow> exn + sqlval" where
  "param row name = andthen (subscript row name) adapt"

definition tzdb_timezones_query :: "tables \<Rightarrow> pyval \<Rightarrow> exn + tables" where
  "tzdb_timezones_query t row =
     andthen (param row ''countryCode'') (\<lambda>cc.
     andthen (param row ''countryName'') (\<lambda>cn.
     andthen (param row ''zoneName'') (\<lambda>zn.
     andthen (param row ''gmtOffset'') (\<lambda>off.
     andthen (select_import_time t) (\<lambda>ts.
     Inr (t\<lparr>timezones := timezones t @
            [\<lparr>TZ_COUNTRYCODE = cc, TZ_COUNTRYNAME = cn, TZ_ZONENAME = zn,
              TZ_GMTOFFSET = off, TZ_IMPORT_DATE = ts\<rparr>]\<rparr>))))))"

text \<open>
  \<^verbatim>\<open>CREATE TEMPORARY TABLE temp_zone_details AS SELECT ... WHERE 1=0\<close>: an empty table
  with the columns of TZDB\_ZONE\_DETAILS.
\<close>

definition create_temp_zone_details :: "tables \<Rightarrow> exn + tables" where
  "create_temp_zone_details t =
     (case temp_zone_details t of
        Some rows \<Rightarrow> Inl DatabaseError
      | None \<Rightarrow> Inr (t\<lparr>temp_zone_details := Some []\<rparr>))"

definition temp_table_insert_query :: "tables \<Rightarrow> pyval \<Rightarrow> exn + tables" where
  "temp_table_insert_query t row =
     (case temp_zone_details t of
        None \<Rightarrow> Inl DatabaseError
      | Some staged \<Rightarrow>
         andthen (param row ''zoneName'') (\<lambda>zn.
         andthen (param row ''zoneStart'') (\<lambda>zs.
         andthen (param row ''zoneEnd'') (\<lambda>ze.
         andthen (param row ''countryCode'') (\<lambda>cc.
         andthen (param row ''countryName'') (\<lambda>cn.
         andthen (param row ''gmtOffset'') (\<lambda>off.
         andthen (param row ''dst'') (\<lambda>d.
         andthen (select_import_time t) (\<lambda>ts.
         Inr (t\<lparr>temp_zone_details := Some (staged @
                [\<lparr>ZONENAME = zn, ZONESTART = zs, ZONEEND = ze, COUNTRYCODE = cc,
                  COUNTRYNAME = cn, GMTOFFSET = off, DST = d, IMPORT_DATE = ts\<rparr>])\<rparr>))))))))))"

text \<open>
  The comparison \<open>=\<close> of SQL is true only between two values that are not NULL. The
  join condition of \<^verbatim>\<open>filtered_insert_query\<close> compares the three key columns.
\<close>

definition sql_eq :: "sqlval \<Rightarrow> sqlval \<Rightarrow> bool" where
  "sql_eq a b = (a \<noteq> SNull \<and> b \<noteq> SNull \<and> a = b)"

definition join_on :: "detail_row \<Rightarrow> detail_row \<Rightarrow> bool" where
  "join_on s d =
     (sql_eq (ZONENAME s) (ZONENAME d) \<and>
      sql_eq (ZONESTART s) (ZONESTART d) \<and>
      sql_eq (ZONEEND s) (ZONEEND d))"

text \<open>
  The left join gives, for a staged row, one row for each destination row it joins
  with and, when there is none, one row whose destination columns are NULL. A joined
  destination row has a ZONENAME that is not NULL, so the \<^verbatim>\<open>WHERE\<close> keeps exactly the
  staged rows that join with no destination row, each once, in the staging order.
\<close>

definition filtered_insert_query :: "tables \<Rightarrow> exn + tables" where
  "filtered_insert_query t =
     (case temp_zone_details t of
        None \<Rightarrow> Inl DatabaseError
      | Some staged \<Rightarrow>
         Inr (t\<lparr>zone_details := zone_details t @
                filter (\<lambda>s. \<not> list_ex (join_on s) (zone_details t)) staged\<rparr>))"

text \<open>\<^verbatim>\<open>for row in rows: cursor.execute(query, row)\<close>, stopping at the first error.\<close>

fun execute_each :: "(tables \<Rightarrow> pyval \<Rightarrow> exn + tables) \<Rightarrow> pyval list \<Rightarrow> tables \<Rightarrow> exn + tables" where
  "execute_each query [] t = Inr t"
| "execute_each query (row # rows) t = andthen (query t row) (execute_each query rows)"

section \<open>populate_data\<close>

text \<open>
  One run on a connection whose transaction starts with the tables \<open>t\<close>. The function
  returns \<open>Inr\<close> of the tables it has committed, or \<open>Inl\<close> of an exception that left it
  before the commit; the transaction is then lost and the persisted tables are still
  \<open>t\<close>. The rate and the buffer are the defaults, 1 and 1.
\<close>

definition no_data_message :: pyval where
  "no_data_message = PStr ''No data received from API. List query failed.''"

definition populate_data :: "env \<Rightarrow> tables \<Rightarrow> world \<Rightarrow> (exn + tables) \<times> world" where
  "populate_data ev t w =
     (case list_time_zone ev w of ((time_zones, time_zones_error), w1) \<Rightarrow>
        (case (if truthy time_zones_error then log_error time_zones_error t else Inr t) of
           Inl e \<Rightarrow> (Inl e, w1)
         | Inr t1 \<Rightarrow>
            if \<not> truthy time_zones then (log_error no_data_message t1, w1)
            else
              (case andthen (create_temp_time_table t1) (\<lambda>t2.
                    andthen (insert_temp_time (clock w1) t2) (\<lambda>t3.
                    andthen (Inr (truncate_timezones t3)) (\<lambda>t3'.
                    andthen (iterate time_zones) (\<lambda>rows.
                    execute_each tzdb_timezones_query rows t3')))) of
                 Inl e \<Rightarrow> (Inl e, w1)
               | Inr t4 \<Rightarrow>
                  (case get_time_zone_details ev time_zones 1 1 w1 of
                     (Inl e, w2) \<Rightarrow> (Inl e, w2)
                   | (Inr (entries, details_errors), w2) \<Rightarrow>
                      (andthen (execute_each (\<lambda>t' err. log_error err t') details_errors t4) (\<lambda>t5.
                       andthen (create_temp_zone_details t5) (\<lambda>t6.
                       andthen (execute_each temp_table_insert_query entries t6) (\<lambda>t7.
                       filtered_insert_query t7))),
                       w2)))))"

text \<open>
  A later run is on a new connection: it starts from the tables the earlier run
  committed, and the temporary tables of the earlier session are gone.
\<close>

definition reconnect :: "tables \<Rightarrow> tables" where
  "reconnect t = t\<lparr>temp_time_table := None, temp_zone_details := None\<rparr>"

section \<open>Notions used in the statements\<close>

text \<open>The key on which detail rows are compared: the three columns of the join.\<close>

definition dedup_key :: "detail_row \<Rightarrow> sqlval \<times> sqlval \<times> sqlval" where
  "dedup_key r = (ZONENAME r, ZONESTART r, ZONEEND r)"

text \<open>
  What the detail fetches for a list of zone names return, when their requests are
  the k-th, the (k+1)-th, ... of the run.
\<close>

fun outcomes :: "env \<Rightarrow> nat \<Rightarrow> pyval list \<Rightarrow> (exn + (pyval \<times> pyval)) list" where
  "outcomes ev k [] = []"
| "outcomes ev k (n # ns) = zone_result (http ev k (GetTimeZone n)) # outcomes ev (Suc k) ns"

text \<open>
  The world after one round of the loop of \<^verbatim>\<open>get_time_zone_details\<close>: the request for
  the zone has been made and, when it took less than the spacing, the rest of the
  spacing has been slept.
\<close>

definition after_request :: "env \<Rightarrow> real \<Rightarrow> real \<Rightarrow> pyval \<Rightarrow> world \<Rightarrow> world" where
  "after_request ev time_per_request start_time zone_name w =
     (let w1 = w\<lparr>clock := clock w + latency ev (length (sent w)),
                  sent := sent w @ [GetTimeZone zone_name]\<rparr>
      in if clock w1 - start_time < time_per_request
         then w1\<lparr>clock := clock w1 + (time_per_request - (clock w1 - start_time))
                             + oversleep ev (sleeps w1),
                 sleeps := Suc (sleeps w1)\<rparr>
         else w1)"

section \<open>Sample inputs\<close>

text \<open>Responses of the kinds the service and the transport produce.\<close>

definition r_json_bad :: response where
  "r_json_bad =
     \<lparr>ok = False, reason = PStr ''Internal Server Error'',
      content_type = Some ''application/json'', json_body = None\<rparr>"

definition r_ok_html :: response where
  "r_ok_html =
     \<lparr>ok = True, reason = PStr ''OK'', content_type = Some ''text/html'', json_body = None\<rparr>"

definition r_html500 :: response where
  "r_html500 =
     \<lparr>ok = False, reason = PStr ''Internal Server Error'',
      content_type = Some ''text/html'', json_body = None\<rparr>"

definition r_failed :: response where
  "r_failed =
     \<lparr>ok = True, reason = PStr ''OK'', content_type = Some ''application/json'',
      json_body = Some (PDict [(''status'', PStr ''FAILED''),
                               (''message'', PStr ''Invalid API key.'')])\<rparr>"

definition r_no_reason :: response where
  "r_no_reason =
     \<lparr>ok = False, reason = PStr '''', content_type = Some ''text/html'', json_body = None\<rparr>"

definition r_zone :: response where
  "r_zone =
     \<lparr>ok = True, reason = PStr ''OK'', content_type = Some ''application/json'',
      json_body = Some (PDict [(''status'', PStr ''OK''),
                               (''zoneName'', PStr ''Europe/Andorra''),
                               (''zoneStart'', PInt 0),
                               (''zoneEnd'', PInt 1710054000),
                               (''countryCode'', PStr ''AD''),
                               (''countryName'', PStr ''Andorra''),
                               (''gmtOffset'', PInt 7200),
                               (''dst'', PStr ''0'')])\<rparr>"

definition r_list :: response where
  "r_list =
     \<lparr>ok = True, reason = PStr ''OK'', content_type = Some ''application/json'',
      json_body = Some (PDict [(''status'', PStr ''OK''),
                               (''zones'', PList [PDict [(''zoneName'', PStr ''Europe/Andorra''),
                                                         (''countryCode'', PStr ''AD''),
                                                         (''countryName'', PStr ''Andorra''),
                                                         (''gmtOffset'', PInt 7200)]])])\<rparr>"

text \<open>
  A service that answers every request well (half a second each), and one that
  rejects the key. A world at time 100 with nothing sent, and empty tables.
\<close>

definition ev_ok :: env where
  "ev_ok =
     \<lparr>http = (\<lambda>k req. case req of ListTimeZone \<Rightarrow> Inr r_list | GetTimeZone z \<Rightarrow> Inr r_zone),
      latency = (\<lambda>k. 1 / 2), oversleep = (\<lambda>k. 0)\<rparr>"

definition ev_failed :: env where
  "ev_failed = \<lparr>http = (\<lambda>k req. Inr r_failed), latency = (\<lambda>k. 1 / 2), oversleep = (\<lambda>k. 0)\<rparr>"

definition w0 :: world where
  "w0 = \<lparr>clock = 100, sent = [], sleeps = 0\<rparr>"

definition t0 :: tables where
  "t0 = \<lparr>error_log = [], timezones = [], zone_details = [],
          temp_time_table = None, temp_zone_details = None\<rparr>"

definition r_empty_list :: response where
  "r_empty_list =
     \<lparr>ok = True, reason = PStr ''OK'', content_type = Some ''application/json'',
      json_body = Some (PDict [(''status'', PStr ''OK''), (''zones'', PList [])])\<rparr>"

text \<open>
  A service whose list is empty, and one that knows Europe/Andorra and rejects every
  other request.
\<close>

definition ev_empty :: env where
  "ev_empty = \<lparr>http = (\<lambda>k req. Inr r_empty_list), latency = (\<lambda>k. 1 / 2), oversleep = (\<lambda>k. 0)\<rparr>"

definition ev_mixed :: env where
  "ev_mixed =
     \<lparr>http = (\<lambda>k req. if req = GetTimeZone (PStr ''Europe/Andorra'') then Inr r_zone
                      else Inr r_failed),
      latency = (\<lambda>k. 1 / 2), oversleep = (\<lambda>k. 0)\<rparr>"

definition zone_andorra :: pyval where
  "zone_andorra =
     PDict [(''zoneName'', PStr ''Europe/Andorra''), (''countryCode'', PStr ''AD''),
            (''countryName'', PStr ''Andorra''), (''gmtOffset'', PInt 7200)]"

definition zone_paris :: pyval where
  "zone_paris =
     PDict [(''zoneName'', PStr ''Europe/Paris''), (''countryCode'', PStr ''FR''),
            (''countryName'', PStr ''France''), (''gmtOffset'', PInt 3600)]"

definition detail_andorra :: pyval where
  "detail_andorra =
     PDict [(''status'', PStr ''OK''), (''zoneName'', PStr ''Europe/Andorra''),
            (''zoneStart'', PInt (- 9223372036854775807)), (''zoneEnd'', PInt 1710054000),
            (''countryCode'', PStr ''AD''), (''countryName'', PStr ''Andorra''),
            (''gmtOffset'', PInt 7200), (''dst'', PStr ''0'')]"

text \<open>Rows: the summary and the detail of Europe/Andorra, and a detail of Europe/Paris.\<close>

definition summary_andorra :: "real option \<Rightarrow> summary_row" where
  "summary_andorra ts =
     \<lparr>TZ_COUNTRYCODE = SText ''AD'', TZ_COUNTRYNAME = SText ''Andorra'',
      TZ_ZONENAME = SText ''Europe/Andorra'', TZ_GMTOFFSET = SInt 7200, TZ_IMPORT_DATE = ts\<rparr>"

definition row_andorra :: "real option \<Rightarrow> detail_row" where
  "row_andorra ts =
     \<lparr>ZONENAME = SText ''Europe/Andorra'', ZONESTART = SInt (- 9223372036854775807),
      ZONEEND = SInt 1710054000, COUNTRYCODE = SText ''AD'', COUNTRYNAME = SText ''Andorra'',
      GMTOFFSET = SInt 7200, DST = SText ''0'', IMPORT_DATE = ts\<rparr>"

definition row_paris :: "real option \<Rightarrow> detail_row" where
  "row_paris ts =
     \<lparr>ZONENAME = SText ''Europe/Paris'', ZONESTART = SInt 1698541200,
      ZONEEND = SInt 1711846800, COUNTRYCODE = SText ''FR'', COUNTRYNAME = SText ''France'',
      GMTOFFSET = SInt 3600, DST = SText ''0'', IMPORT_DATE = ts\<rparr>"

text \<open>
  Tables just before the merge: Europe/Andorra is in the destination from an earlier
  run, and the staging table holds it again and Europe/Paris twice. Then the same
  tables after the merge.
\<close>

definition t_staged :: tables where
  "t_staged =
     \<lparr>error_log = [], timezones = [], zone_details = [row_andorra (Some 100)],
      temp_time_table = Some [200],
      temp_zone_details =
        Some [row_andorra (Some 200), row_paris (Some 200), row_paris (Some 200)]\<rparr>"


text \<open>
  The run against the service that answers well, started on empty tables at time
  100: the world after the list fetch, the world at the end and the tables committed.
\<close>

definition w_listed :: world where
  "w_listed = \<lparr>clock = 201 / 2, sent = [ListTimeZone], sleeps = 0\<rparr>"

definition w_end :: world where
  "w_end =
     \<lparr>clock = 209 / 2, sent = [ListTimeZone, GetTimeZone (PStr ''Europe/Andorra'')],
      sleeps = 2\<rparr>"

definition t_imported :: tables where
  "t_imported =
     \<lparr>error_log = [], timezones = [summary_andorra (Some (201 / 2))],
      zone_details = [row_andorra (Some (201 / 2))],
      temp_time_table = Some [201 / 2],
      temp_zone_details = Some [row_andorra (Some (201 / 2))]\<rparr>"

text \<open>
  A detail response whose zoneName is null, a service that gives it for every zone,
  the detail row it becomes, and tables in which that row is staged for an empty
  destination. The tables the first run against that service commits.
\<close>

definition r_zone_null :: response where
  "r_zone_null =
     \<lparr>ok = True, reason = PStr ''OK'', content_type = Some ''application/json'',
      json_body = Some (PDict [(''status'', PStr ''OK''),
                               (''zoneName'', PNone),
                               (''zoneStart'', PInt 1698541200),
                               (''zoneEnd'', PInt 1711846800),
                               (''countryCode'', PStr ''AD''),
                               (''countryName'', PStr ''Andorra''),
                               (''gmtOffset'', PInt 7200),
                               (''dst'', PStr ''0'')])\<rparr>"

definition ev_null :: env where
  "ev_null =
     \<lparr>http = (\<lambda>k req. case req of ListTimeZone \<Rightarrow> Inr r_list | GetTimeZone z \<Rightarrow> Inr r_zone_null),
      latency = (\<lambda>k. 1 / 2), oversleep = (\<lambda>k. 0)\<rparr>"

definition row_null :: "real option \<Rightarrow> detail_row" where
  "row_null ts =
     \<lparr>ZONENAME = SNull, ZONESTART = SInt 1698541200, ZONEEND = SInt 1711846800,
      COUNTRYCODE = SText ''AD'', COUNTRYNAME = SText ''Andorra'',
      GMTOFFSET = SInt 7200, DST = SText ''0'', IMPORT_DATE = ts\<rparr>"


definition t_null_run :: tables where
  "t_null_run =
     \<lparr>error_log = [], timezones = [summary_andorra (Some (201 / 2))],
      zone_details = [row_null (Some (201 / 2))],
      temp_time_table = Some [201 / 2],
      temp_zone_details = Some [row_null (Some (201 / 2))]\<rparr>"

text \<open>
  Services whose list request is rejected with a message that is a JSON object, and
  with one that is an array.
\<close>

definition r_dict_message :: response where
  "r_dict_message =
     \<lparr>ok = True, reason = PStr ''OK'', content_type = Some ''application/json'',
      json_body = Some (PDict [(''status'', PStr ''FAILED''),
                               (''message'', PDict [(''code'', PInt 1)])])\<rparr>"

definition r_list_message :: response where
  "r_list_message =
     \<lparr>ok = True, reason = PStr ''OK'', content_type = Some ''application/json'',
      json_body = Some (PDict [(''status'', PStr ''FAILED''),
                               (''message'', PList [PStr ''a''])])\<rparr>"

definition ev_dict_message :: env where
  "ev_dict_message =
     \<lparr>http = (\<lambda>k req. Inr r_dict_message), latency = (\<lambda>k. 1 / 2), oversleep = (\<lambda>k. 0)\<rparr>"

definition ev_list_message :: env where
  "ev_list_message =
     \<lparr>http = (\<lambda>k req. Inr r_list_message), latency = (\<lambda>k. 1 / 2), oversleep = (\<lambda>k. 0)\<rparr>"

section \<open>The response decoder\<close>

lemma andthen_Inl [simp]: "andthen (Inl e) f = Inl e"
  by (simp add: andthen_def)

lemma andthen_Inr [simp]: "andthen (Inr x) f = f x"
  by (simp add: andthen_def)

lemma andthen_eq_Inr: "andthen m f = Inr y \<longleftrightarrow> (\<exists>x. m = Inr x \<and> f x = Inr y)"
  by (cases m) simp_all

text \<open>What the decoder does with a response that is not ok, and with one that is.\<close>

lemma extract_json_not_ok:
  "\<not> ok r \<Longrightarrow> extract_json r =
     (if not_json_content r then Inr (PDict [], reason r)
      else case json_body r of
             None \<Rightarrow> Inl JSONDecodeError
           | Some j \<Rightarrow> andthen (method_get j ''message'' (PStr ''No error message in response''))
                        (\<lambda>error. Inr (PDict [], error)))"
  by (simp add: extract_json_def failed_status_def response_json_def split: option.splits)

lemma extract_json_ok:
  "ok r \<Longrightarrow> extract_json r =
     (case json_body r of
        None \<Rightarrow> Inl JSONDecodeError
      | Some (PDict kvs) \<Rightarrow>
          if map_of kvs ''status'' = Some (PStr ''OK'') then Inr (PDict kvs, PStr '''')
          else if not_json_content r then Inr (PDict [], reason r)
          else Inr (PDict [], case map_of kvs ''message'' of
                                None \<Rightarrow> PStr ''No error message in response'' | Some m \<Rightarrow> m)
      | Some _ \<Rightarrow> Inl AttributeError)"
  by (auto simp add: extract_json_def failed_status_def response_json_def
      split: option.splits pyval.splits)

text \<open>
  A result of the decoder is the empty dictionary with an error, or a dictionary with
  the empty error.
\<close>

lemma extract_json_cases:
  assumes "extract_json r = Inr (d, e)"
  shows "d = PDict [] \<or> (e = PStr '''' \<and> (\<exists>kvs. d = PDict kvs))"
proof (cases "ok r")
  case False
  with assms show ?thesis
    by (auto simp add: extract_json_not_ok andthen_eq_Inr split: if_splits option.splits)
next
  case True
  with assms show ?thesis
    by (auto simp add: extract_json_ok split: if_splits option.splits pyval.splits)
qed

text \<open>
  C4. As stated (every failing response gives the empty payload and a non-empty error,
  and the decoder never raises) the claim fails: a response that is not ok, announces
  JSON and carries a body that does not decode makes the decoder raise.
\<close>

theorem extract_json_raises_on_failing:
  "\<not> ok r_json_bad \<and> extract_json r_json_bad = Inl JSONDecodeError"
  by (simp add: extract_json_not_ok r_json_bad_def not_json_content_def)

text \<open>
  C4, amended. For a response that is not ok, or whose body decodes to a dictionary
  whose status is not "OK", the decoder never returns a payload: it returns the empty
  dictionary with the reason phrase when the Content-Type does not contain
  application/json; otherwise it reads the body, raises when that does not decode or
  is not a dictionary, and else returns the empty dictionary with the message field,
  or with the fixed text when the field is absent.
\<close>

theorem extract_json_failing:
  assumes "\<not> ok r \<or>
           (\<exists>kvs. json_body r = Some (PDict kvs) \<and> map_of kvs ''status'' \<noteq> Some (PStr ''OK''))"
  shows "extract_json r =
     (if not_json_content r then Inr (PDict [], reason r)
      else case json_body r of
             None \<Rightarrow> Inl JSONDecodeError
           | Some (PDict kvs) \<Rightarrow>
               Inr (PDict [], case map_of kvs ''message'' of
                                None \<Rightarrow> PStr ''No error message in response'' | Some m \<Rightarrow> m)
           | Some _ \<Rightarrow> Inl AttributeError)"
proof (cases "ok r")
  case False
  then show ?thesis
    by (simp add: extract_json_not_ok split: option.splits pyval.splits)
next
  case True
  with assms obtain kvs where "json_body r = Some (PDict kvs)"
    and "map_of kvs ''status'' \<noteq> Some (PStr ''OK'')" by blast
  with True show ?thesis
    by (simp add: extract_json_ok)
qed

theorem extract_json_failing_witness:
  "map_of [(''status'', PStr ''FAILED''), (''message'', PStr ''Invalid API key.'')] ''status''
     \<noteq> Some (PStr ''OK'')
   \<and> extract_json r_failed = Inr (PDict [], PStr ''Invalid API key.'')"
  using extract_json_failing [of r_failed]
  by (simp add: r_failed_def not_json_content_def)

text \<open>
  The error that comes with the empty payload can itself be empty: the reason phrase
  of a response may be the empty string (and so may the message field).
\<close>

lemma extract_json_empty_reason:
  "extract_json r_no_reason = Inr (PDict [], PStr '''')"
  by (simp add: extract_json_not_ok r_no_reason_def not_json_content_def)

text \<open>
  C5. As stated (every response whose content type is not JSON gives the reason phrase
  as the error) the claim fails: on a response that is ok the body is decoded before
  the content type is looked at, and the decoder raises.
\<close>

theorem extract_json_ok_html_raises:
  "not_json_content r_ok_html \<and> json_body r_ok_html = None
   \<and> extract_json r_ok_html = Inl JSONDecodeError"
  by (simp add: extract_json_ok r_ok_html_def not_json_content_def)

text \<open>
  C5, amended. For a response whose Content-Type is absent or does not contain
  application/json: when the transport status is not ok the decoder returns the empty
  dictionary and the reason phrase, whatever the body holds; when the status is ok it
  decodes the body first, raises when that fails, and returns the reason phrase only
  when the body is a dictionary whose status is not "OK".
\<close>

theorem extract_json_reason_when_not_json:
  assumes "not_json_content r"
  shows "(\<not> ok r \<longrightarrow> extract_json r = Inr (PDict [], reason r)) \<and>
         (ok r \<longrightarrow> extract_json r =
            (case json_body r of
               None \<Rightarrow> Inl JSONDecodeError
             | Some (PDict kvs) \<Rightarrow>
                 if map_of kvs ''status'' = Some (PStr ''OK'') then Inr (PDict kvs, PStr '''')
                 else Inr (PDict [], reason r)
             | Some _ \<Rightarrow> Inl AttributeError))"
proof (intro conjI impI)
  assume "\<not> ok r"
  with assms show "extract_json r = Inr (PDict [], reason r)"
    by (simp add: extract_json_not_ok)
next
  assume "ok r"
  with assms show "extract_json r =
            (case json_body r of
               None \<Rightarrow> Inl JSONDecodeError
             | Some (PDict kvs) \<Rightarrow>
                 if map_of kvs ''status'' = Some (PStr ''OK'') then Inr (PDict kvs, PStr '''')
                 else Inr (PDict [], reason r)
             | Some _ \<Rightarrow> Inl AttributeError)"
    by (simp add: extract_json_ok split: option.splits pyval.splits)
qed

theorem extract_json_reason_when_not_json_witness:
  "not_json_content r_html500 \<and> \<not> ok r_html500
   \<and> extract_json r_html500 = Inr (PDict [], PStr ''Internal Server Error'')"
  using extract_json_reason_when_not_json [of r_html500]
  by (simp add: r_html500_def not_json_content_def)

section \<open>The zone-list fetcher\<close>

lemma list_time_zone_result:
  assumes "list_time_zone ev w = ((zones, error), w1)"
  shows "w1 = w\<lparr>clock := clock w + latency ev (length (sent w)), sent := sent w @ [ListTimeZone]\<rparr>"
    and "error \<noteq> PStr '''' \<Longrightarrow> zones = PList []"
proof -
  let ?got = "http ev (length (sent w)) ListTimeZone"
  show "w1 = w\<lparr>clock := clock w + latency ev (length (sent w)), sent := sent w @ [ListTimeZone]\<rparr>"
    using assms by (simp add: list_time_zone_def requests_get_def)
  assume ne: "error \<noteq> PStr ''''"
  show "zones = PList []"
  proof (cases ?got)
    case (Inl e)
    with assms show ?thesis
      by (simp add: list_time_zone_def requests_get_def)
  next
    case (Inr r)
    show ?thesis
    proof (cases "extract_json r")
      case (Inl e)
      with Inr assms show ?thesis
        by (simp add: list_time_zone_def requests_get_def)
    next
      case (Inr de)
      obtain d e where de: "de = (d, e)" by (cases de)
      from extract_json_cases [of r d e] Inr de
      have "d = PDict [] \<or> (e = PStr '''' \<and> (\<exists>kvs. d = PDict kvs))" by simp
      with \<open>?got = Inr r\<close> Inr de assms ne show ?thesis
        by (auto simp add: list_time_zone_def requests_get_def)
    qed
  qed
qed

text \<open>The early exit of the orchestrator, taken exactly when the list is falsy.\<close>

lemma populate_data_early_exit:
  assumes "list_time_zone ev w = ((zones, error), w1)" and "\<not> truthy zones"
  shows "populate_data ev t w =
          (if truthy error then andthen (log_error error t) (log_error no_data_message)
           else log_error no_data_message t, w1)"
  using assms by (simp add: populate_data_def split: sum.splits)

lemma list_time_zone_failed:
  "list_time_zone ev_failed w0 =
     ((PList [], PStr ''Invalid API key.''), \<lparr>clock = 201 / 2, sent = [ListTimeZone], sleeps = 0\<rparr>)"
  by (simp add: list_time_zone_def requests_get_def ev_failed_def w0_def r_failed_def
      extract_json_ok not_json_content_def)

text \<open>
  C9. Whatever the service does, a list fetch whose error is not the empty string
  returns the empty list; and when the error is truthy the orchestrator logs it, logs
  the no-data message and ends the run there.
\<close>

theorem list_time_zone_error_or_zones:
  assumes "list_time_zone ev w = ((zones, error), w1)"
  shows "(error \<noteq> PStr '''' \<longrightarrow> zones = PList []) \<and>
         (truthy error \<longrightarrow>
            populate_data ev t w = (andthen (log_error error t) (log_error no_data_message), w1))"
proof (intro conjI impI)
  assume "error \<noteq> PStr ''''"
  with assms show "zones = PList []" by (rule list_time_zone_result(2))
next
  assume tr: "truthy error"
  then have "error \<noteq> PStr ''''" by auto
  with assms have "zones = PList []" by (rule list_time_zone_result(2))
  with assms tr
  show "populate_data ev t w = (andthen (log_error error t) (log_error no_data_message), w1)"
    by (simp add: populate_data_early_exit)
qed

theorem list_time_zone_error_or_zones_witness:
  "list_time_zone ev_failed w0 =
     ((PList [], PStr ''Invalid API key.''), \<lparr>clock = 201 / 2, sent = [ListTimeZone], sleeps = 0\<rparr>)
   \<and> PStr ''Invalid API key.'' \<noteq> PStr '''' \<and> truthy (PStr ''Invalid API key.'')
   \<and> populate_data ev_failed t0 w0 =
       (Inr (t0\<lparr>error_log := [SText ''Invalid API key.'',
                               SText ''No data received from API. List query failed.'']\<rparr>),
        \<lparr>clock = 201 / 2, sent = [ListTimeZone], sleeps = 0\<rparr>)"
  using list_time_zone_error_or_zones [OF list_time_zone_failed, of t0]
  by (simp add: list_time_zone_failed log_error_def no_data_message_def t0_def)

section \<open>The zone-detail fetcher\<close>

text \<open>What the \<^verbatim>\<open>try\<close> leaves in \<^verbatim>\<open>json_result\<close> is always a dictionary.\<close>

lemma decode_time_zone_dict: "\<exists>kvs. fst (decode_time_zone got) = PDict kvs"
proof (cases "andthen got extract_json")
  case (Inl e)
  then show ?thesis by (simp add: decode_time_zone_def)
next
  case (Inr de)
  then obtain r where "extract_json r = Inr de" by (auto simp add: andthen_eq_Inr)
  with extract_json_cases [of r "fst de" "snd de"] Inr show ?thesis
    by (auto simp add: decode_time_zone_def)
qed

lemma fill_in_dict:
  "fill_in key v (PDict kvs) =
     Inr (PDict (if kvs \<noteq> [] \<and> \<not> truthy (case map_of kvs key of None \<Rightarrow> PNone | Some c \<Rightarrow> c)
                 then AList.update key v kvs else kvs))"
  by (simp add: fill_in_def)

lemma zone_result_dict:
  assumes "decode_time_zone got = (PDict kvs, error)"
  shows "zone_result got =
     Inr (PDict (if kvs = [] then []
                 else let start_missing = \<not> truthy (case map_of kvs ''zoneStart'' of None \<Rightarrow> PNone | Some c \<Rightarrow> c);
                          end_missing = \<not> truthy (case map_of kvs ''zoneEnd'' of None \<Rightarrow> PNone | Some c \<Rightarrow> c);
                          kvs1 = (if start_missing
                                  then AList.update ''zoneStart'' (PInt (- max_bigint_value)) kvs
                                  else kvs)
                      in if end_missing then AList.update ''zoneEnd'' (PInt max_bigint_value) kvs1
                         else kvs1),
          error)"
  using assms
  by (auto simp add: zone_result_def fill_in_dict Let_def update_conv' split: option.splits)

text \<open>So the statements after the \<^verbatim>\<open>try\<close> never raise.\<close>

lemma zone_result_total: "\<exists>kvs error. zone_result got = Inr (PDict kvs, error)"
proof -
  obtain d e where de: "decode_time_zone got = (d, e)" by (cases "decode_time_zone got")
  with decode_time_zone_dict [of got] obtain kvs where "d = PDict kvs" by auto
  with de zone_result_dict [of got kvs e] show ?thesis by blast
qed

lemma decode_time_zone_sample:
  "decode_time_zone (http ev_ok (length (sent w0)) (GetTimeZone (PStr ''Europe/Andorra''))) =
     (PDict [(''status'', PStr ''OK''), (''zoneName'', PStr ''Europe/Andorra''),
             (''zoneStart'', PInt 0), (''zoneEnd'', PInt 1710054000),
             (''countryCode'', PStr ''AD''), (''countryName'', PStr ''Andorra''),
             (''gmtOffset'', PInt 7200), (''dst'', PStr ''0'')],
      PStr '''')"
  by (simp add: decode_time_zone_def ev_ok_def r_zone_def extract_json_ok)

text \<open>
  C6. When the fetch of a zone leaves a non-empty dictionary, the function returns it
  with zoneStart set to \<open>-(2^63 - 1)\<close> if the key was absent, None or 0, and with
  zoneEnd set to \<open>2^63 - 1\<close> likewise; an integer that is not 0 stays as it is (and so
  does every other truthy value), and no other key changes.
\<close>

theorem get_time_zone_by_name_bounds:
  assumes "decode_time_zone (http ev (length (sent w)) (GetTimeZone zone_name)) = (PDict kvs, error)"
    and "kvs \<noteq> []"
  shows "\<exists>kvs'. fst (get_time_zone_by_name ev zone_name w) = Inr (PDict kvs', error) \<and>
     map_of kvs' ''zoneStart'' =
       (case map_of kvs ''zoneStart'' of
          None \<Rightarrow> Some (PInt (- (2 ^ 63 - 1)))
        | Some PNone \<Rightarrow> Some (PInt (- (2 ^ 63 - 1)))
        | Some (PInt n) \<Rightarrow> Some (PInt (if n = 0 then - (2 ^ 63 - 1) else n))
        | Some v \<Rightarrow> Some (if truthy v then v else PInt (- (2 ^ 63 - 1)))) \<and>
     map_of kvs' ''zoneEnd'' =
       (case map_of kvs ''zoneEnd'' of
          None \<Rightarrow> Some (PInt (2 ^ 63 - 1))
        | Some PNone \<Rightarrow> Some (PInt (2 ^ 63 - 1))
        | Some (PInt n) \<Rightarrow> Some (PInt (if n = 0 then 2 ^ 63 - 1 else n))
        | Some v \<Rightarrow> Some (if truthy v then v else PInt (2 ^ 63 - 1))) \<and>
     (\<forall>k. k \<noteq> ''zoneStart'' \<and> k \<noteq> ''zoneEnd'' \<longrightarrow> map_of kvs' k = map_of kvs k)"
proof -
  have m: "max_bigint_value = 2 ^ 63 - 1" by (simp add: max_bigint_value_def)
  from assms show ?thesis
    unfolding get_time_zone_by_name_def requests_get_def
    apply (simp add: zone_result_dict Let_def m del: One_nat_def)
    apply (auto simp add: update_conv' split: option.splits pyval.splits)
    done
qed

theorem get_time_zone_by_name_bounds_witness:
  "decode_time_zone (http ev_ok (length (sent w0)) (GetTimeZone (PStr ''Europe/Andorra''))) =
     (PDict [(''status'', PStr ''OK''), (''zoneName'', PStr ''Europe/Andorra''),
             (''zoneStart'', PInt 0), (''zoneEnd'', PInt 1710054000),
             (''countryCode'', PStr ''AD''), (''countryName'', PStr ''Andorra''),
             (''gmtOffset'', PInt 7200), (''dst'', PStr ''0'')],
      PStr '''')
   \<and> (\<exists>kvs'. fst (get_time_zone_by_name ev_ok (PStr ''Europe/Andorra'') w0) = Inr (PDict kvs', PStr '''')
         \<and> map_of kvs' ''zoneStart'' = Some (PInt (- 9223372036854775807))
         \<and> map_of kvs' ''zoneEnd'' = Some (PInt 1710054000)
         \<and> map_of kvs' ''zoneName'' = Some (PStr ''Europe/Andorra''))"
proof -
  from get_time_zone_by_name_bounds [OF decode_time_zone_sample]
  obtain kvs' where
    "fst (get_time_zone_by_name ev_ok (PStr ''Europe/Andorra'') w0) = Inr (PDict kvs', PStr '''')"
    and "map_of kvs' ''zoneStart'' = Some (PInt (- 9223372036854775807))"
    and "map_of kvs' ''zoneEnd'' = Some (PInt 1710054000)"
    and "\<forall>k. k \<noteq> ''zoneStart'' \<and> k \<noteq> ''zoneEnd'' \<longrightarrow>
           map_of kvs' k =
           map_of [(''status'', PStr ''OK''), (''zoneName'', PStr ''Europe/Andorra''),
                   (''zoneStart'', PInt 0), (''zoneEnd'', PInt 1710054000),
                   (''countryCode'', PStr ''AD''), (''countryName'', PStr ''Andorra''),
                   (''gmtOffset'', PInt 7200), (''dst'', PStr ''0'')] k"
    by auto
  moreover from this(4) have "map_of kvs' ''zoneName'' = Some (PStr ''Europe/Andorra'')"
    by simp
  ultimately show ?thesis
    using decode_time_zone_sample by blast
qed

section \<open>The rate-limited batch fetcher\<close>

text \<open>One round of the loop, for a zone that has a name.\<close>

lemma details_loop_step:
  assumes "subscript tz ''zoneName'' = Inr n"
    and "zone_result (http ev (length (sent w)) (GetTimeZone n)) = Inr (d, e)"
  shows "details_loop ev tpr (tz # rest) zd er st w =
           details_loop ev tpr rest (if truthy e then zd else zd @ [d])
             (if truthy e then er @ [e] else er)
             (clock (after_request ev tpr st n w)) (after_request ev tpr st n w)"
  using assms
  by (simp add: get_time_zone_by_name_def requests_get_def sleep_def after_request_def Let_def)

declare details_loop.simps(2) [simp del]

lemma sent_after_request: "sent (after_request ev tpr st n w) = sent w @ [GetTimeZone n]"
  by (simp add: after_request_def Let_def)

text \<open>
  A round that starts at \<^verbatim>\<open>start_time\<close> ends no earlier than one spacing later, however
  long the request took.
\<close>

lemma clock_after_request:
  assumes "0 \<le> oversleep ev (sleeps w)"
  shows "clock w + tpr \<le> clock (after_request ev tpr (clock w) n w)"
  using assms by (simp add: after_request_def Let_def)

lemma length_outcomes: "length (outcomes ev k ns) = length ns"
  by (induction ns arbitrary: k) simp_all

text \<open>
  The loop over zones that all have a name: it returns, it has sent one request for
  each name, in order, and it has put each outcome in one of the two lists.
\<close>

lemma details_loop_result:
  assumes "map (\<lambda>tz. subscript tz ''zoneName'') zs = map Inr names"
  shows "\<exists>outs w'. details_loop ev tpr zs zd er st w =
            (Inr (zd @ map fst (filter (\<lambda>p. \<not> truthy (snd p)) outs),
                  er @ map snd (filter (\<lambda>p. truthy (snd p)) outs)), w') \<and>
            map Inr outs = outcomes ev (length (sent w)) names \<and>
            sent w' = sent w @ map GetTimeZone names"
  using assms
proof (induction zs arbitrary: names zd er st w)
  case Nil
  then show ?case by simp
next
  case (Cons tz rest)
  from Cons.prems obtain n ns where names: "names = n # ns"
    and n: "subscript tz ''zoneName'' = Inr n"
    and ns: "map (\<lambda>tz. subscript tz ''zoneName'') rest = map Inr ns"
    by (cases names) auto
  from zone_result_total obtain kvs e
    where res: "zone_result (http ev (length (sent w)) (GetTimeZone n)) = Inr (PDict kvs, e)"
    by blast
  let ?w2 = "after_request ev tpr st n w"
  let ?zd = "if truthy e then zd else zd @ [PDict kvs]"
  let ?er = "if truthy e then er @ [e] else er"
  from Cons.IH [OF ns, of ?zd ?er "clock ?w2" ?w2] obtain outs w' where
    loop: "details_loop ev tpr rest ?zd ?er (clock ?w2) ?w2 =
            (Inr (?zd @ map fst (filter (\<lambda>p. \<not> truthy (snd p)) outs),
                  ?er @ map snd (filter (\<lambda>p. truthy (snd p)) outs)), w')"
    and outs: "map Inr outs = outcomes ev (length (sent ?w2)) ns"
    and sent: "sent w' = sent ?w2 @ map GetTimeZone ns" by blast
  let ?outs = "(PDict kvs, e) # outs"
  have "details_loop ev tpr (tz # rest) zd er st w =
            (Inr (zd @ map fst (filter (\<lambda>p. \<not> truthy (snd p)) ?outs),
                  er @ map snd (filter (\<lambda>p. truthy (snd p)) ?outs)), w')"
    using loop by (simp add: details_loop_step [OF n res])
  moreover have "map Inr ?outs = outcomes ev (length (sent w)) names"
    using outs res names by (simp add: sent_after_request)
  moreover have "sent w' = sent w @ map GetTimeZone names"
    using sent names by (simp add: sent_after_request)
  ultimately show ?case by blast
qed

text \<open>The loop takes at least one spacing for each zone.\<close>

lemma details_loop_clock:
  assumes "map (\<lambda>tz. subscript tz ''zoneName'') zs = map Inr names"
    and "\<forall>k. 0 \<le> oversleep ev k"
  shows "clock w + real (length zs) * tpr
           \<le> clock (snd (details_loop ev tpr zs zd er (clock w) w))"
  using assms(1)
proof (induction zs arbitrary: names zd er w)
  case Nil
  then show ?case by simp
next
  case (Cons tz rest)
  from Cons.prems obtain n ns where names: "names = n # ns"
    and n: "subscript tz ''zoneName'' = Inr n"
    and ns: "map (\<lambda>tz. subscript tz ''zoneName'') rest = map Inr ns"
    by (cases names) auto
  from zone_result_total obtain kvs e
    where res: "zone_result (http ev (length (sent w)) (GetTimeZone n)) = Inr (PDict kvs, e)"
    by blast
  let ?w2 = "after_request ev tpr (clock w) n w"
  let ?zd = "if truthy e then zd else zd @ [PDict kvs]"
  let ?er = "if truthy e then er @ [e] else er"
  from assms(2) have "clock w + tpr \<le> clock ?w2" by (simp add: clock_after_request)
  moreover from Cons.IH [OF ns, where w = ?w2 and zd = ?zd and er = ?er]
  have "clock ?w2 + real (length rest) * tpr
          \<le> clock (snd (details_loop ev tpr rest ?zd ?er (clock ?w2) ?w2))" .
  ultimately show ?case
    by (simp add: details_loop_step [OF n res] algebra_simps)
qed

text \<open>With a rate that is not zero and a spacing that is not negative, the function is
  the first sleep followed by the loop.\<close>

lemma get_time_zone_details_start:
  assumes "rate_limit \<noteq> 0" and "0 \<le> 1 / rate_limit + buffer"
  shows "get_time_zone_details ev (PList zs) rate_limit buffer w =
      details_loop ev (1 / rate_limit + buffer) zs [] []
        (clock w + (1 / rate_limit + buffer) + oversleep ev (sleeps w))
        (w\<lparr>clock := clock w + (1 / rate_limit + buffer) + oversleep ev (sleeps w),
           sleeps := Suc (sleeps w)\<rparr>)"
  using assms by (simp add: get_time_zone_details_def sleep_def Let_def)

lemma get_time_zone_details_result:
  assumes "rate_limit \<noteq> 0" and "0 \<le> 1 / rate_limit + buffer"
    and "map (\<lambda>tz. subscript tz ''zoneName'') zs = map Inr names"
  shows "\<exists>outs w'. get_time_zone_details ev (PList zs) rate_limit buffer w =
            (Inr (map fst (filter (\<lambda>p. \<not> truthy (snd p)) outs),
                  map snd (filter (\<lambda>p. truthy (snd p)) outs)), w') \<and>
            map Inr outs = outcomes ev (length (sent w)) names \<and>
            sent w' = sent w @ map GetTimeZone names"
proof -
  let ?tpr = "1 / rate_limit + buffer"
  let ?w1 = "w\<lparr>clock := clock w + ?tpr + oversleep ev (sleeps w), sleeps := Suc (sleeps w)\<rparr>"
  from details_loop_result [OF assms(3), where ev = ev and tpr = ?tpr and zd = "[]" and er = "[]"
      and st = "clock ?w1" and w = ?w1]
  show ?thesis
    by (simp add: get_time_zone_details_start [OF assms(1,2)])
qed

lemma zone_result_r_zone: "zone_result (Inr r_zone) = Inr (detail_andorra, PStr '''')"
  by (simp add: zone_result_def decode_time_zone_def r_zone_def extract_json_ok fill_in_def
      detail_andorra_def max_bigint_value_def)

lemma zone_result_r_failed:
  "zone_result (Inr r_failed) = Inr (PDict [], PStr ''Invalid API key.'')"
  by (simp add: zone_result_def decode_time_zone_def r_failed_def extract_json_ok fill_in_def
      not_json_content_def)

lemma names_sample:
  "map (\<lambda>tz. subscript tz ''zoneName'') [zone_andorra, zone_paris] =
     map Inr [PStr ''Europe/Andorra'', PStr ''Europe/Paris'']"
  by (simp add: zone_andorra_def zone_paris_def)

text \<open>
  A run of the batch on two zones, the second of which the service rejects: started
  at time 100, it ends at time 106.
\<close>

lemma get_time_zone_details_mixed:
  "get_time_zone_details ev_mixed (PList [zone_andorra, zone_paris]) 1 1 w0 =
     (Inr ([detail_andorra], [PStr ''Invalid API key.'']),
      \<lparr>clock = 106,
        sent = [GetTimeZone (PStr ''Europe/Andorra''), GetTimeZone (PStr ''Europe/Paris'')],
        sleeps = 3\<rparr>)"
  by (simp add: get_time_zone_details_def sleep_def w0_def details_loop.simps
      zone_andorra_def zone_paris_def get_time_zone_by_name_def requests_get_def ev_mixed_def
      zone_result_r_zone zone_result_r_failed)

text \<open>
  C7. For a rate that is not zero, a spacing that is not negative and a list of zones
  that each have a zoneName, the batch returns (no zone's failure stops it): it has
  sent exactly one request for each zone, in the order of the list; with \<open>outs\<close> the
  outcomes of these requests, the detail list is the payloads of the outcomes whose
  error is falsy and the error list is the errors of the outcomes whose error is
  truthy, both in order; and the two lengths add up to the number of zones.
\<close>

theorem get_time_zone_details_partition:
  assumes "rate_limit \<noteq> 0" and "0 \<le> 1 / rate_limit + buffer"
    and "map (\<lambda>tz. subscript tz ''zoneName'') zs = map Inr names"
  shows "\<exists>outs zone_details errors w'.
            get_time_zone_details ev (PList zs) rate_limit buffer w = (Inr (zone_details, errors), w') \<and>
            map Inr outs = outcomes ev (length (sent w)) names \<and>
            sent w' = sent w @ map GetTimeZone names \<and>
            zone_details = map fst (filter (\<lambda>p. \<not> truthy (snd p)) outs) \<and>
            errors = map snd (filter (\<lambda>p. truthy (snd p)) outs) \<and>
            length zone_details + length errors = length zs"
proof -
  from get_time_zone_details_result [OF assms] obtain outs w' where
    run: "get_time_zone_details ev (PList zs) rate_limit buffer w =
            (Inr (map fst (filter (\<lambda>p. \<not> truthy (snd p)) outs),
                  map snd (filter (\<lambda>p. truthy (snd p)) outs)), w')"
    and outs: "map Inr outs = outcomes ev (length (sent w)) names"
    and sent: "sent w' = sent w @ map GetTimeZone names" by blast
  from outs have "length outs = length (outcomes ev (length (sent w)) names)"
    by (metis length_map)
  moreover from assms(3) have "length zs = length names" by (metis length_map)
  ultimately have "length outs = length zs" by (simp add: length_outcomes)
  then have "length (map fst (filter (\<lambda>p. \<not> truthy (snd p)) outs))
               + length (map snd (filter (\<lambda>p. truthy (snd p)) outs)) = length zs"
    using sum_length_filter_compl [of "\<lambda>p. truthy (snd p)" outs] by simp
  with run outs sent show ?thesis by blast
qed

theorem get_time_zone_details_partition_witness:
  "(1::real) \<noteq> 0 \<and> (0::real) \<le> 1 / 1 + 1
   \<and> map (\<lambda>tz. subscript tz ''zoneName'') [zone_andorra, zone_paris] =
       map Inr [PStr ''Europe/Andorra'', PStr ''Europe/Paris'']
   \<and> (\<exists>outs w'.
         get_time_zone_details ev_mixed (PList [zone_andorra, zone_paris]) 1 1 w0 =
           (Inr ([detail_andorra], [PStr ''Invalid API key.'']), w')
         \<and> outs = [(detail_andorra, PStr ''''), (PDict [], PStr ''Invalid API key.'')]
         \<and> sent w' = [GetTimeZone (PStr ''Europe/Andorra''), GetTimeZone (PStr ''Europe/Paris'')])"
proof -
  have r: "(1::real) \<noteq> 0" and b: "(0::real) \<le> 1 / 1 + 1" by simp_all
  from get_time_zone_details_partition [OF r b names_sample, of ev_mixed w0]
  obtain outs zone_details errors w' where
    run: "get_time_zone_details ev_mixed (PList [zone_andorra, zone_paris]) 1 1 w0 =
            (Inr (zone_details, errors), w')"
    and outs: "map Inr outs =
            outcomes ev_mixed (length (sent w0)) [PStr ''Europe/Andorra'', PStr ''Europe/Paris'']"
    and sent: "sent w' = sent w0 @ map GetTimeZone [PStr ''Europe/Andorra'', PStr ''Europe/Paris'']"
    and zd: "zone_details = map fst (filter (\<lambda>p. \<not> truthy (snd p)) outs)"
    and er: "errors = map snd (filter (\<lambda>p. truthy (snd p)) outs)"
    by blast
  from outs have o: "outs = [(detail_andorra, PStr ''''), (PDict [], PStr ''Invalid API key.'')]"
    by (auto simp add: ev_mixed_def zone_result_r_zone zone_result_r_failed)
  with zd er have "zone_details = [detail_andorra]" and "errors = [PStr ''Invalid API key.'']"
    by simp_all
  with run sent o names_sample show ?thesis
    by (simp add: w0_def)
qed

text \<open>
  C2. Times are real numbers, the clock is the one \<^verbatim>\<open>time.time()\<close> reads, and a sleep
  lasts at least as long as asked. For a rate that is not zero and zones that each
  have a zoneName, the clock at the end of the batch is at least N spacings after the
  clock at its start, N the number of zones and the spacing \<open>1 / rate_limit + buffer\<close>,
  whatever the requests return and however long they take. When the spacing is not
  negative the batch returns and takes at least N + 1 spacings, the first sleep
  included; when it is negative the first sleep raises at once.
\<close>

theorem get_time_zone_details_duration:
  assumes "rate_limit \<noteq> 0" and "\<forall>k. 0 \<le> oversleep ev k"
    and "map (\<lambda>tz. subscript tz ''zoneName'') zs = map Inr names"
  shows "real (length zs) * (1 / rate_limit + buffer)
           \<le> clock (snd (get_time_zone_details ev (PList zs) rate_limit buffer w)) - clock w \<and>
         (0 \<le> 1 / rate_limit + buffer \<longrightarrow>
            (\<exists>res. fst (get_time_zone_details ev (PList zs) rate_limit buffer w) = Inr res) \<and>
            real (length zs + 1) * (1 / rate_limit + buffer)
              \<le> clock (snd (get_time_zone_details ev (PList zs) rate_limit buffer w)) - clock w)"
proof -
  let ?tpr = "1 / rate_limit + buffer"
  let ?w1 = "w\<lparr>clock := clock w + ?tpr + oversleep ev (sleeps w), sleeps := Suc (sleeps w)\<rparr>"
  let ?end = "clock (snd (get_time_zone_details ev (PList zs) rate_limit buffer w))"
  have full: "real (length zs + 1) * ?tpr \<le> ?end - clock w" if nonneg: "0 \<le> ?tpr"
  proof -
    from details_loop_clock [OF assms(3) assms(2), where w = ?w1 and tpr = ?tpr
        and zd = "[]" and er = "[]"]
    have "clock ?w1 + real (length zs) * ?tpr
            \<le> clock (snd (details_loop ev ?tpr zs [] [] (clock ?w1) ?w1))" .
    moreover from assms(2) have "clock w + ?tpr \<le> clock ?w1" by simp
    ultimately show ?thesis
      by (simp add: get_time_zone_details_start [OF assms(1) nonneg] algebra_simps)
  qed
  have returns: "\<exists>res. fst (get_time_zone_details ev (PList zs) rate_limit buffer w) = Inr res"
    if nonneg: "0 \<le> ?tpr"
    using get_time_zone_details_result [OF assms(1) nonneg assms(3), of ev w] by auto
  have "real (length zs) * ?tpr \<le> ?end - clock w"
  proof (cases "0 \<le> ?tpr")
    case True
    from full [OF True] True show ?thesis by (simp add: algebra_simps)
  next
    case False
    with assms(1)
    have "get_time_zone_details ev (PList zs) rate_limit buffer w = (Inl ValueError, w)"
      by (simp add: get_time_zone_details_def sleep_def Let_def)
    moreover from False have "real (length zs) * ?tpr \<le> 0"
      by (simp add: mult_nonneg_nonpos)
    ultimately show ?thesis by simp
  qed
  with full returns show ?thesis by blast
qed

theorem get_time_zone_details_duration_witness:
  "(1::real) \<noteq> 0 \<and> (\<forall>k. 0 \<le> oversleep ev_mixed k)
   \<and> map (\<lambda>tz. subscript tz ''zoneName'') [zone_andorra, zone_paris] =
       map Inr [PStr ''Europe/Andorra'', PStr ''Europe/Paris'']
   \<and> (0::real) \<le> 1 / 1 + 1
   \<and> real (length [zone_andorra, zone_paris] + 1) * (1 / 1 + 1)
       \<le> clock (snd (get_time_zone_details ev_mixed (PList [zone_andorra, zone_paris]) 1 1 w0))
          - clock w0
   \<and> clock (snd (get_time_zone_details ev_mixed (PList [zone_andorra, zone_paris]) 1 1 w0))
       - clock w0 = 6"
proof -
  have r: "(1::real) \<noteq> 0" and o: "\<forall>k. 0 \<le> oversleep ev_mixed k"
    by (simp_all add: ev_mixed_def)
  from get_time_zone_details_duration [OF r o names_sample, of 1 w0]
  have "real (length [zone_andorra, zone_paris] + 1) * (1 / 1 + 1)
       \<le> clock (snd (get_time_zone_details ev_mixed (PList [zone_andorra, zone_paris]) 1 1 w0))
          - clock w0"
    by simp
  moreover
  have "clock (snd (get_time_zone_details ev_mixed (PList [zone_andorra, zone_paris]) 1 1 w0))
       - clock w0 = 6"
    unfolding get_time_zone_details_mixed by (simp add: w0_def)
  ultimately show ?thesis
    using r o names_sample by simp
qed

section \<open>The merge into TZDB\_ZONE\_DETAILS\<close>


lemma join_on_imp_key: "join_on s d \<Longrightarrow> dedup_key s = dedup_key d"
  by (simp add: join_on_def dedup_key_def sql_eq_def)


lemma filtered_insert_query_staged:
  "temp_zone_details t = Some staged \<Longrightarrow>
   filtered_insert_query t =
     Inr (t\<lparr>zone_details := zone_details t @
              filter (\<lambda>s. \<not> list_ex (join_on s) (zone_details t)) staged\<rparr>)"
  by (simp add: filtered_insert_query_def)


text \<open>
  A run of the whole import against a service that answers with a null zoneName, and
  a second run on what the first has committed: the second inserts the detail row
  again.
\<close>

lemma populate_data_null_key_first: "populate_data ev_null t0 w0 = (Inr t_null_run, w_end)"
  by (simp add: populate_data_def list_time_zone_def requests_get_def ev_null_def r_list_def
      r_zone_null_def extract_json_ok get_time_zone_details_def sleep_def details_loop.simps
      get_time_zone_by_name_def zone_result_def decode_time_zone_def fill_in_def
      create_temp_time_table_def insert_temp_time_def truncate_timezones_def
      tzdb_timezones_query_def param_def select_import_time_def log_error_def
      create_temp_zone_details_def temp_table_insert_query_def filtered_insert_query_def
      t0_def w0_def t_null_run_def w_end_def summary_andorra_def row_null_def)

lemma populate_data_null_key_second:
  "\<exists>t2 w2. populate_data ev_null (reconnect t_null_run) w_end = (Inr t2, w2) \<and>
           zone_details t2 = [row_null (Some (201 / 2)), row_null (Some 105)]"
  by (simp add: populate_data_def list_time_zone_def requests_get_def ev_null_def r_list_def
      r_zone_null_def extract_json_ok get_time_zone_details_def sleep_def details_loop.simps
      get_time_zone_by_name_def zone_result_def decode_time_zone_def fill_in_def
      create_temp_time_table_def insert_temp_time_def truncate_timezones_def
      tzdb_timezones_query_def param_def select_import_time_def log_error_def
      create_temp_zone_details_def temp_table_insert_query_def filtered_insert_query_def
      reconnect_def t_null_run_def w_end_def summary_andorra_def row_null_def
      join_on_def sql_eq_def)





text \<open>
  C10. When no destination row carries the triple \<open>k\<close>, the rows with that triple in
  the destination after the merge are exactly the staged rows with it, each of them
  and in the staging order: two staged rows with the same new triple are both
  inserted.
\<close>

theorem filtered_insert_query_batch_duplicates:
  assumes "temp_zone_details t = Some staged"
    and "\<not> list_ex (\<lambda>d. dedup_key d = k) (zone_details t)"
  shows "\<exists>t1. filtered_insert_query t = Inr t1 \<and>
           filter (\<lambda>r. dedup_key r = k) (zone_details t1) = filter (\<lambda>r. dedup_key r = k) staged"
proof -
  let ?ins = "filter (\<lambda>s. \<not> list_ex (join_on s) (zone_details t)) staged"
  from assms(2) have none: "filter (\<lambda>r. dedup_key r = k) (zone_details t) = []"
    by (simp add: filter_empty_conv list_ex_iff)
  have "\<not> list_ex (join_on s) (zone_details t)" if "dedup_key s = k" for s
  proof
    assume "list_ex (join_on s) (zone_details t)"
    then obtain d where "d \<in> set (zone_details t)" and "join_on s d"
      by (auto simp add: list_ex_iff)
    with that join_on_imp_key [of s d] assms(2) show False
      by (auto simp add: list_ex_iff)
  qed
  then have "filter (\<lambda>r. dedup_key r = k) ?ins = filter (\<lambda>r. dedup_key r = k) staged"
    by (auto intro: filter_cong)
  with none assms(1) show ?thesis
    by (simp add: filtered_insert_query_staged)
qed

theorem filtered_insert_query_batch_duplicates_witness:
  "temp_zone_details t_staged =
     Some [row_andorra (Some 200), row_paris (Some 200), row_paris (Some 200)]
   \<and> \<not> list_ex (\<lambda>d. dedup_key d = dedup_key (row_paris None)) (zone_details t_staged)
   \<and> (\<exists>t1. filtered_insert_query t_staged = Inr t1 \<and>
         filter (\<lambda>r. dedup_key r = dedup_key (row_paris None)) (zone_details t1) =
           [row_paris (Some 200), row_paris (Some 200)])"
proof -
  let ?staged = "[row_andorra (Some 200), row_paris (Some 200), row_paris (Some 200)]"
  have st: "temp_zone_details t_staged = Some ?staged" by (simp add: t_staged_def)
  have absent: "\<not> list_ex (\<lambda>d. dedup_key d = dedup_key (row_paris None)) (zone_details t_staged)"
    by (simp add: t_staged_def dedup_key_def row_andorra_def row_paris_def)
  from filtered_insert_query_batch_duplicates [OF st absent] obtain t1 where
    "filtered_insert_query t_staged = Inr t1"
    and "filter (\<lambda>r. dedup_key r = dedup_key (row_paris None)) (zone_details t1) =
           filter (\<lambda>r. dedup_key r = dedup_key (row_paris None)) ?staged"
    by blast
  moreover have "filter (\<lambda>r. dedup_key r = dedup_key (row_paris None)) ?staged =
           [row_paris (Some 200), row_paris (Some 200)]"
    by (simp add: dedup_key_def row_andorra_def row_paris_def)
  ultimately show ?thesis
    using st absent by auto
qed

section \<open>The orchestrator\<close>

subsection \<open>The empty list\<close>

lemma populate_data_failed_sample:
  "populate_data ev_failed t0 w0 =
     (Inr (t0\<lparr>error_log := [SText ''Invalid API key.'',
                             SText ''No data received from API. List query failed.'']\<rparr>),
      \<lparr>clock = 201 / 2, sent = [ListTimeZone], sleeps = 0\<rparr>)"
  by (simp add: populate_data_early_exit [OF list_time_zone_failed] log_error_def
      no_data_message_def t0_def)

lemma list_time_zone_empty:
  "list_time_zone ev_empty w0 =
     ((PList [], PStr ''''), \<lparr>clock = 201 / 2, sent = [ListTimeZone], sleeps = 0\<rparr>)"
  by (simp add: list_time_zone_def requests_get_def ev_empty_def w0_def r_empty_list_def
      extract_json_ok)

text \<open>
  C3. As stated (exactly one error-log row whenever the list is empty) the claim
  fails: when the list fetch reports an error, that error is logged first and the
  no-data message second, two rows.
\<close>

theorem populate_data_two_error_rows:
  "fst (fst (list_time_zone ev_failed w0)) = PList [] \<and> error_log t0 = []
   \<and> fst (populate_data ev_failed t0 w0) =
       Inr (t0\<lparr>error_log := [SText ''Invalid API key.'',
                              SText ''No data received from API. List query failed.'']\<rparr>)"
  unfolding populate_data_failed_sample list_time_zone_failed by (simp add: t0_def)

text \<open>
  C3, amended. When the list fetch yields a falsy list, the run makes no request but
  the list request and does not sleep, writes no summary or detail row and does not
  truncate the summary table. With a falsy error it appends one row to the error log,
  the no-data message, and commits. With a truthy error that the driver can adapt it
  appends two rows, the error and then the no-data message, and commits. With a
  truthy error that the driver cannot adapt (a dictionary, or a list that holds one)
  the first insert raises and nothing is committed.
\<close>

theorem populate_data_empty_list:
  assumes "list_time_zone ev w = ((zones, error), w1)" and "\<not> truthy zones"
  shows "snd (populate_data ev t w) = w1 \<and>
         sent w1 = sent w @ [ListTimeZone] \<and> sleeps w1 = sleeps w \<and>
         fst (populate_data ev t w) =
           (if truthy error then
              (case adapt error of
                 Inl e \<Rightarrow> Inl e
               | Inr m \<Rightarrow>
                  Inr (t\<lparr>error_log := error_log t @
                           [m, SText ''No data received from API. List query failed.'']\<rparr>))
            else
              Inr (t\<lparr>error_log := error_log t @
                       [SText ''No data received from API. List query failed.'']\<rparr>))"
proof -
  from list_time_zone_result(1) [OF assms(1)]
  have "sent w1 = sent w @ [ListTimeZone]" and "sleeps w1 = sleeps w" by simp_all
  then show ?thesis
    by (simp add: populate_data_early_exit [OF assms] log_error_def no_data_message_def
        split: sum.splits)
qed

theorem populate_data_empty_list_witness:
  "list_time_zone ev_empty w0 =
     ((PList [], PStr ''''), \<lparr>clock = 201 / 2, sent = [ListTimeZone], sleeps = 0\<rparr>)
   \<and> \<not> truthy (PList [])
   \<and> snd (populate_data ev_empty t0 w0) = \<lparr>clock = 201 / 2, sent = [ListTimeZone], sleeps = 0\<rparr>
   \<and> fst (populate_data ev_empty t0 w0) =
       Inr (t0\<lparr>error_log := [SText ''No data received from API. List query failed.'']\<rparr>)"
proof -
  have "\<not> truthy (PList [])" by simp
  from populate_data_empty_list [OF list_time_zone_empty this, of t0]
  show ?thesis
    by (simp add: list_time_zone_empty t0_def)
qed

text \<open>
  The list fetch rejected with a message that is an array, and with one that is an
  object: two rows are committed in the first run, the second run raises.
\<close>

lemma populate_data_list_message:
  "populate_data ev_list_message t0 w0 =
     (Inr (t0\<lparr>error_log := [SArray [SText ''a''],
                             SText ''No data received from API. List query failed.'']\<rparr>),
      \<lparr>clock = 201 / 2, sent = [ListTimeZone], sleeps = 0\<rparr>)"
  by (simp add: populate_data_def list_time_zone_def requests_get_def ev_list_message_def
      r_list_message_def extract_json_ok not_json_content_def log_error_def
      no_data_message_def t0_def w0_def)

lemma populate_data_dict_message:
  "populate_data ev_dict_message t0 w0 =
     (Inl DatabaseError, \<lparr>clock = 201 / 2, sent = [ListTimeZone], sleeps = 0\<rparr>)"
  by (simp add: populate_data_def list_time_zone_def requests_get_def ev_dict_message_def
      r_dict_message_def extract_json_ok not_json_content_def log_error_def
      no_data_message_def t0_def w0_def)

subsection \<open>The import timestamp\<close>

lemma select_import_time_single:
  "temp_time_table t = Some [ts] \<Longrightarrow> select_import_time t = Inr (Some ts)"
  by (simp add: select_import_time_def)

lemma tzdb_timezones_query_Inr:
  assumes "tzdb_timezones_query t row = Inr t'" and "temp_time_table t = Some [ts]"
  shows "\<exists>r. t' = t\<lparr>timezones := timezones t @ [r]\<rparr> \<and> TZ_IMPORT_DATE r = Some ts"
  using assms
  by (auto simp add: tzdb_timezones_query_def andthen_eq_Inr select_import_time_single)

text \<open>
  The loops of inserts change one table only, and every row they add carries the
  time that the temporary table holds.
\<close>

lemma execute_each_timezones:
  assumes "execute_each tzdb_timezones_query rows t = Inr t'" and "temp_time_table t = Some [ts]"
  shows "\<exists>new. t' = t\<lparr>timezones := timezones t @ new\<rparr> \<and> length new = length rows \<and>
               (\<forall>r\<in>set new. TZ_IMPORT_DATE r = Some ts)"
  using assms
proof (induction rows arbitrary: t)
  case Nil
  then show ?case by simp
next
  case (Cons row rows)
  from Cons.prems(1) obtain t1 where q: "tzdb_timezones_query t row = Inr t1"
    and rest: "execute_each tzdb_timezones_query rows t1 = Inr t'"
    by (auto simp add: andthen_eq_Inr)
  from tzdb_timezones_query_Inr [OF q Cons.prems(2)] obtain r
    where t1: "t1 = t\<lparr>timezones := timezones t @ [r]\<rparr>" and r: "TZ_IMPORT_DATE r = Some ts"
    by blast
  from t1 Cons.prems(2) have "temp_time_table t1 = Some [ts]" by simp
  from Cons.IH [OF rest this] obtain new
    where t': "t' = t1\<lparr>timezones := timezones t1 @ new\<rparr>" and len: "length new = length rows"
      and dates: "\<forall>r\<in>set new. TZ_IMPORT_DATE r = Some ts" by blast
  from t' t1 have "t' = t\<lparr>timezones := timezones t @ (r # new)\<rparr>" by simp
  moreover from len have "length (r # new) = length (row # rows)" by simp
  moreover from r dates have "\<forall>x\<in>set (r # new). TZ_IMPORT_DATE x = Some ts" by simp
  ultimately show ?case by blast
qed

lemma temp_table_insert_query_Inr:
  assumes "temp_table_insert_query t row = Inr t'" and "temp_time_table t = Some [ts]"
    and "temp_zone_details t = Some staged"
  shows "\<exists>r. t' = t\<lparr>temp_zone_details := Some (staged @ [r])\<rparr> \<and> IMPORT_DATE r = Some ts"
  using assms
  by (auto simp add: temp_table_insert_query_def andthen_eq_Inr select_import_time_single)

lemma execute_each_staging:
  assumes "execute_each temp_table_insert_query rows t = Inr t'"
    and "temp_time_table t = Some [ts]" and "temp_zone_details t = Some staged"
  shows "\<exists>new. t' = t\<lparr>temp_zone_details := Some (staged @ new)\<rparr> \<and> length new = length rows \<and>
               (\<forall>r\<in>set new. IMPORT_DATE r = Some ts)"
  using assms
proof (induction rows arbitrary: t staged)
  case Nil
  then show ?case by simp
next
  case (Cons row rows)
  from Cons.prems(1) obtain t1 where q: "temp_table_insert_query t row = Inr t1"
    and rest: "execute_each temp_table_insert_query rows t1 = Inr t'"
    by (auto simp add: andthen_eq_Inr)
  from temp_table_insert_query_Inr [OF q Cons.prems(2,3)] obtain r
    where t1: "t1 = t\<lparr>temp_zone_details := Some (staged @ [r])\<rparr>"
      and r: "IMPORT_DATE r = Some ts" by blast
  from t1 Cons.prems(2) have tt: "temp_time_table t1 = Some [ts]" by simp
  from t1 have st: "temp_zone_details t1 = Some (staged @ [r])" by simp
  from Cons.IH [OF rest tt st] obtain new
    where t': "t' = t1\<lparr>temp_zone_details := Some ((staged @ [r]) @ new)\<rparr>"
      and len: "length new = length rows"
      and dates: "\<forall>r\<in>set new. IMPORT_DATE r = Some ts" by blast
  from t' t1 have "t' = t\<lparr>temp_zone_details := Some (staged @ (r # new))\<rparr>" by simp
  moreover from len have "length (r # new) = length (row # rows)" by simp
  moreover from r dates have "\<forall>x\<in>set (r # new). IMPORT_DATE x = Some ts" by simp
  ultimately show ?case by blast
qed

lemma log_error_Inr:
  "log_error err t = Inr t' \<Longrightarrow>
   \<exists>m. adapt err = Inr m \<and> t' = t\<lparr>error_log := error_log t @ [m]\<rparr>"
  by (auto simp add: log_error_def andthen_eq_Inr)

lemma execute_each_log_error:
  assumes "execute_each (\<lambda>t' err. log_error err t') errs t = Inr t'"
  shows "\<exists>ms. t' = t\<lparr>error_log := error_log t @ ms\<rparr> \<and> map Inr ms = map adapt errs"
  using assms
proof (induction errs arbitrary: t)
  case Nil
  then show ?case by simp
next
  case (Cons err errs)
  from Cons.prems obtain t1 where q: "log_error err t = Inr t1"
    and rest: "execute_each (\<lambda>t' err. log_error err t') errs t1 = Inr t'"
    by (auto simp add: andthen_eq_Inr)
  from log_error_Inr [OF q] obtain m where m: "adapt err = Inr m"
    and t1: "t1 = t\<lparr>error_log := error_log t @ [m]\<rparr>" by blast
  from Cons.IH [OF rest] obtain ms where t': "t' = t1\<lparr>error_log := error_log t1 @ ms\<rparr>"
    and ms: "map Inr ms = map adapt errs" by blast
  from t' t1 have "t' = t\<lparr>error_log := error_log t @ (m # ms)\<rparr>" by simp
  moreover from m ms have "map Inr (m # ms) = map adapt (err # errs)" by simp
  ultimately show ?case by blast
qed

text \<open>The run past the early exit: a truthy list comes with the empty error.\<close>

lemma populate_data_main_path:
  assumes list: "list_time_zone ev w = ((zones, error), w1)" and tz: "truthy zones"
  shows "populate_data ev t w =
     (case andthen (create_temp_time_table t) (\<lambda>t2.
           andthen (insert_temp_time (clock w1) t2) (\<lambda>t3.
           andthen (iterate zones) (\<lambda>rows.
           execute_each tzdb_timezones_query rows (truncate_timezones t3)))) of
        Inl e \<Rightarrow> (Inl e, w1)
      | Inr t4 \<Rightarrow>
         (case get_time_zone_details ev zones 1 1 w1 of
            (Inl e, w2) \<Rightarrow> (Inl e, w2)
          | (Inr (entries, details_errors), w2) \<Rightarrow>
             (andthen (execute_each (\<lambda>t' err. log_error err t') details_errors t4) (\<lambda>t5.
              andthen (create_temp_zone_details t5) (\<lambda>t6.
              andthen (execute_each temp_table_insert_query entries t6) (\<lambda>t7.
              filtered_insert_query t7))),
              w2)))"
proof -
  from tz have "zones \<noteq> PList []" by auto
  with list_time_zone_result(2) [OF list] have "error = PStr ''''" by blast
  with list tz show ?thesis
    by (simp add: populate_data_def)
qed

lemma populate_data_sample: "populate_data ev_ok t0 w0 = (Inr t_imported, w_end)"
  by (simp add: populate_data_def list_time_zone_def requests_get_def ev_ok_def r_list_def
      extract_json_ok get_time_zone_details_def sleep_def details_loop.simps
      get_time_zone_by_name_def zone_result_r_zone detail_andorra_def
      create_temp_time_table_def insert_temp_time_def truncate_timezones_def
      tzdb_timezones_query_def param_def select_import_time_def log_error_def
      create_temp_zone_details_def temp_table_insert_query_def filtered_insert_query_def
      t0_def w0_def t_imported_def w_end_def summary_andorra_def row_andorra_def)

lemma list_time_zone_sample:
  "list_time_zone ev_ok w0 = ((PList [zone_andorra], PStr ''''), w_listed)"
  by (simp add: list_time_zone_def requests_get_def ev_ok_def r_list_def extract_json_ok
      w0_def w_listed_def zone_andorra_def)

text \<open>
  C8. In a run that goes past the early exit and commits, the temporary table holds
  one time, the clock's value right after the list fetch and before the first write;
  every row of the summary table (emptied and filled again in the run) carries it,
  and so does every row the run has added to the detail table, although those are
  inserted after the batch fetch.
\<close>

theorem populate_data_one_import_time:
  assumes run: "populate_data ev t w = (Inr t', w')"
    and list: "list_time_zone ev w = ((zones, error), w1)"
    and tz: "truthy zones"
  shows "temp_time_table t' = Some [clock w1] \<and>
         (\<forall>r\<in>set (timezones t'). TZ_IMPORT_DATE r = Some (clock w1)) \<and>
         (\<exists>inserted. zone_details t' = zone_details t @ inserted \<and>
            (\<forall>r\<in>set inserted. IMPORT_DATE r = Some (clock w1)))"
proof -
  let ?ts = "clock w1"
  note main = populate_data_main_path [OF list tz, of t]
  from run main obtain t4 where
    first: "andthen (create_temp_time_table t) (\<lambda>t2.
           andthen (insert_temp_time ?ts t2) (\<lambda>t3.
           andthen (iterate zones) (\<lambda>rows.
           execute_each tzdb_timezones_query rows (truncate_timezones t3)))) = Inr t4"
    by (auto split: sum.splits)
  then obtain t2 t3 rows where
    c: "create_temp_time_table t = Inr t2" and i: "insert_temp_time ?ts t2 = Inr t3"
    and ex: "execute_each tzdb_timezones_query rows (truncate_timezones t3) = Inr t4"
    by (auto simp add: andthen_eq_Inr)
  from c have t2: "t2 = t\<lparr>temp_time_table := Some []\<rparr>"
    by (auto simp add: create_temp_time_table_def split: option.splits)
  with i have t3: "t3 = t\<lparr>temp_time_table := Some [?ts]\<rparr>"
    by (auto simp add: insert_temp_time_def)
  then have "temp_time_table (truncate_timezones t3) = Some [?ts]"
    by (simp add: truncate_timezones_def)
  from execute_each_timezones [OF ex this] obtain summary where
    t4: "t4 = t\<lparr>temp_time_table := Some [?ts], timezones := summary\<rparr>"
    and sdates: "\<forall>r\<in>set summary. TZ_IMPORT_DATE r = Some ?ts"
    using t3 by (auto simp add: truncate_timezones_def)
  from run main first obtain entries details_errors where
    second: "andthen (execute_each (\<lambda>t' err. log_error err t') details_errors t4) (\<lambda>t5.
              andthen (create_temp_zone_details t5) (\<lambda>t6.
              andthen (execute_each temp_table_insert_query entries t6) (\<lambda>t7.
              filtered_insert_query t7))) = Inr t'"
    by (auto split: sum.splits prod.splits)
  then obtain t5 t6 t7 where
    l: "execute_each (\<lambda>t' err. log_error err t') details_errors t4 = Inr t5"
    and cz: "create_temp_zone_details t5 = Inr t6"
    and st: "execute_each temp_table_insert_query entries t6 = Inr t7"
    and f: "filtered_insert_query t7 = Inr t'"
    by (auto simp add: andthen_eq_Inr)
  from execute_each_log_error [OF l] obtain ms
    where t5: "t5 = t4\<lparr>error_log := error_log t4 @ ms\<rparr>" by blast
  from cz have t6: "t6 = t5\<lparr>temp_zone_details := Some []\<rparr>"
    by (auto simp add: create_temp_zone_details_def split: option.splits)
  from t6 t5 t4 have tt6: "temp_time_table t6 = Some [?ts]"
    and tz6: "temp_zone_details t6 = Some []"
    by simp_all
  from execute_each_staging [OF st tt6 tz6] obtain staged where
    t7: "t7 = t6\<lparr>temp_zone_details := Some staged\<rparr>"
    and ddates: "\<forall>r\<in>set staged. IMPORT_DATE r = Some ?ts" by auto
  from t7 have "temp_zone_details t7 = Some staged" by simp
  from filtered_insert_query_staged [OF this] f have
    t': "t' = t7\<lparr>zone_details := zone_details t7 @
              filter (\<lambda>s. \<not> list_ex (join_on s) (zone_details t7)) staged\<rparr>" by simp
  let ?ins = "filter (\<lambda>s. \<not> list_ex (join_on s) (zone_details t7)) staged"
  from t' t7 t6 t5 t4 have "temp_time_table t' = Some [?ts]" by simp
  moreover from t' t7 t6 t5 t4 sdates
  have "\<forall>r\<in>set (timezones t'). TZ_IMPORT_DATE r = Some ?ts" by simp
  moreover from t' t7 t6 t5 t4 have "zone_details t' = zone_details t @ ?ins" by simp
  moreover from ddates have "\<forall>r\<in>set ?ins. IMPORT_DATE r = Some ?ts" by simp
  ultimately show ?thesis by blast
qed

theorem populate_data_one_import_time_witness:
  "populate_data ev_ok t0 w0 = (Inr t_imported, w_end)
   \<and> list_time_zone ev_ok w0 = ((PList [zone_andorra], PStr ''''), w_listed)
   \<and> truthy (PList [zone_andorra])
   \<and> clock w_listed = 201 / 2 \<and> clock w_end = 209 / 2
   \<and> temp_time_table t_imported = Some [201 / 2]
   \<and> timezones t_imported = [summary_andorra (Some (201 / 2))]
   \<and> zone_details t_imported = zone_details t0 @ [row_andorra (Some (201 / 2))]"
proof -
  have tz: "truthy (PList [zone_andorra])" by simp
  from populate_data_one_import_time [OF populate_data_sample list_time_zone_sample tz]
  have "temp_time_table t_imported = Some [clock w_listed]" by blast
  then have "temp_time_table t_imported = Some [201 / 2]" by (simp add: w_listed_def)
  then show ?thesis
    using populate_data_sample list_time_zone_sample
    by (simp add: t_imported_def t0_def w_listed_def w_end_def)
qed

end
